theory Spec2Isabelle
  imports Complex_Main
begin

section \<open>Data model (types.ts)\<close>

text \<open>
  \<^verbatim>\<open>ReportPoint { id, text, imagePaths }\<close> and
  \<^verbatim>\<open>Report { id, userId, userEmail?, title, area, createdAt, points }\<close>.
  The two \<^verbatim>\<open>id\<close> fields and \<^verbatim>\<open>text\<close> are renamed
  (\<open>point_id\<close>, \<open>report_id\<close>, \<open>point_text\<close>): record fields share one name space
  and \<open>id\<close>, \<open>text\<close> are taken. A JavaScript string is a sequence of code units; a
  \<open>char\<close> of the model stands for one code unit.
\<close>

record ReportPoint =
  point_id :: string
  point_text :: string
  imagePaths :: "string list"

record Report =
  report_id :: string
  userId :: string
  userEmail :: "string option"
  title :: string
  area :: string
  createdAt :: string
  points :: "ReportPoint list"

section \<open>Sync controller (App component: debounce, saveToDb, updateReport)\<close>

datatype SyncStatus = Saved | Saving | Unsaved

datatype ToastType = Success | Error

record Toast =
  toast_show :: bool
  toast_message :: string
  toast_type :: ToastType

text \<open>
  \<^verbatim>\<open>saveToDb\<close> is \<^verbatim>\<open>useCallback(async (report) => {...}, [syncStatus])\<close>: its only free
  variable that changes between renders is \<^verbatim>\<open>syncStatus\<close>, so one closure of it is
  represented by the value of \<^verbatim>\<open>syncStatus\<close> of the render that created it.
\<close>

type_synonym saveToDb_closure = SyncStatus

text \<open>
  A pending \<^verbatim>\<open>setTimeout(() => func(...args), waitFor)\<close> of the browser: its handle,
  the time it is due, and the callback, which is the closure \<^verbatim>\<open>func\<close> and its argument.
\<close>

record timer =
  handle :: nat
  due :: nat
  timer_func :: saveToDb_closure
  timer_args :: Report

text \<open>
  One result of \<^verbatim>\<open>debounce(func, waitFor)\<close>: the closure holds \<^verbatim>\<open>func\<close>,
  \<^verbatim>\<open>waitFor\<close> and its private variable \<^verbatim>\<open>timeout\<close> (initially null).
\<close>

record debounced =
  func :: saveToDb_closure
  waitFor :: nat
  timeout :: "nat option"

definition debounce :: "saveToDb_closure \<Rightarrow> nat \<Rightarrow> debounced" where
  "debounce f w = \<lparr>func = f, waitFor = w, timeout = None\<rparr>"

text \<open>
  What runs after \<^verbatim>\<open>await saveToDb(...)\<close> in the caller: nothing more
  (\<^verbatim>\<open>updateReport\<close>, a timer) or \<^verbatim>\<open>setActiveReportId(null)\<close>
  (\<^verbatim>\<open>handleBackFromEditor\<close>).
\<close>

datatype continuation = Nothing | CloseEditor

datatype outcome = Resolved | Rejected

text \<open>
  The state of the \<^verbatim>\<open>App\<close> component after a render, with the part of the browser
  and of the backend it talks to: the clock (milliseconds), the pending timers in the
  order they were set, the log of every \<^verbatim>\<open>saveReport\<close> call issued, and the calls
  whose promise has not settled yet.
\<close>

record App =
  reports :: "Report list"
  activeReportId :: "string option"
  toast :: Toast
  syncStatus :: SyncStatus
  saveToDb_memo :: saveToDb_closure
  debouncedSave :: debounced
  clock :: nat
  timers :: "timer list"
  next_handle :: nat
  saveReport_calls :: "Report list"
  in_flight :: "continuation list"

definition initial_App :: "Report list \<Rightarrow> string option \<Rightarrow> App" where
  "initial_App rs active =
     \<lparr>reports = rs, activeReportId = active,
      toast = \<lparr>toast_show = False, toast_message = [], toast_type = Success\<rparr>,
      syncStatus = Saved, saveToDb_memo = Saved, debouncedSave = debounce Saved 1500,
      clock = 0, timers = [], next_handle = 0, saveReport_calls = [], in_flight = []\<rparr>"

text \<open>
  A render after a state change. \<^verbatim>\<open>useCallback(f, deps)\<close> returns the function of the
  previous render when \<^verbatim>\<open>deps\<close> are unchanged and the new one otherwise. So a change
  of \<^verbatim>\<open>syncStatus\<close> gives a new \<^verbatim>\<open>saveToDb\<close>, and with it (dependency
  \<^verbatim>\<open>[saveToDb]\<close>) the freshly built \<^verbatim>\<open>debounce(saveToDb, 1500)\<close>, whose
  \<^verbatim>\<open>timeout\<close> is null. The previous debounced function is dropped without being
  cancelled; a timer it has set stays pending.
\<close>

definition render :: "App \<Rightarrow> App" where
  "render s =
     (if saveToDb_memo s = syncStatus s then s
      else s\<lparr>saveToDb_memo := syncStatus s, debouncedSave := debounce (syncStatus s) 1500\<rparr>)"

definition clearTimeout :: "nat \<Rightarrow> App \<Rightarrow> App" where
  "clearTimeout h s = s\<lparr>timers := filter (\<lambda>t. handle t \<noteq> h) (timers s)\<rparr>"

text \<open>
  \<^verbatim>\<open>debounced(...args)\<close>:
  \<^verbatim>\<open>if (timeout !== null) clearTimeout(timeout); timeout = setTimeout(() => func(...args), waitFor)\<close>.
\<close>

definition debounced_call :: "Report \<Rightarrow> App \<Rightarrow> App" where
  "debounced_call r s =
     (let d = debouncedSave s;
          s1 = (case timeout d of None \<Rightarrow> s | Some h \<Rightarrow> clearTimeout h s);
          h' = next_handle s1
      in s1\<lparr>timers := timers s1 @
                 [\<lparr>handle = h', due = clock s1 + waitFor d, timer_func = func d, timer_args = r\<rparr>],
             next_handle := Suc h',
             debouncedSave := d\<lparr>timeout := Some h'\<rparr>\<rparr>)"

text \<open>\<^verbatim>\<open>debounced.cancel = () => { if (timeout !== null) clearTimeout(timeout); }\<close>\<close>

definition debounced_cancel :: "App \<Rightarrow> App" where
  "debounced_cancel s =
     (case timeout (debouncedSave s) of None \<Rightarrow> s | Some h \<Rightarrow> clearTimeout h s)"

definition showToast :: "string \<Rightarrow> ToastType \<Rightarrow> App \<Rightarrow> App" where
  "showToast m ty s = s\<lparr>toast := \<lparr>toast_show = True, toast_message = m, toast_type = ty\<rparr>\<rparr>"

text \<open>
  \<^verbatim>\<open>saveToDb\<close> up to its \<^verbatim>\<open>await\<close>: the closure returns at once when the
  \<^verbatim>\<open>syncStatus\<close> it captured is \<^verbatim>\<open>'saving'\<close>; otherwise it sets the status to
  \<^verbatim>\<open>'saving'\<close> and calls \<^verbatim>\<open>saveReport(report)\<close>.
\<close>

definition saveToDb :: "saveToDb_closure \<Rightarrow> Report \<Rightarrow> continuation \<Rightarrow> App \<Rightarrow> App" where
  "saveToDb captured report k s =
     (if captured = Saving then s
      else s\<lparr>syncStatus := Saving,
             saveReport_calls := saveReport_calls s @ [report],
             in_flight := in_flight s @ [k]\<rparr>)"

text \<open>
  The rest of \<^verbatim>\<open>saveToDb\<close>, when the promise of the oldest call in flight settles:
  \<^verbatim>\<open>setSyncStatus('saved')\<close>, or in the \<^verbatim>\<open>catch\<close> branch
  \<^verbatim>\<open>setSyncStatus('unsaved'); showToast('Failed to save changes.', 'error')\<close>; then
  the caller's continuation.
\<close>

definition settle :: "outcome \<Rightarrow> App \<Rightarrow> App" where
  "settle out s =
     (case in_flight s of
        [] \<Rightarrow> s
      | k # ks \<Rightarrow>
          (let s1 = s\<lparr>in_flight := ks\<rparr>;
               s2 = (case out of
                       Resolved \<Rightarrow> s1\<lparr>syncStatus := Saved\<rparr>
                     | Rejected \<Rightarrow> showToast ''Failed to save changes.'' Error (s1\<lparr>syncStatus := Unsaved\<rparr>));
               s3 = (case k of Nothing \<Rightarrow> s2 | CloseEditor \<Rightarrow> s2\<lparr>activeReportId := None\<rparr>)
           in render s3))"

text \<open>
  \<^verbatim>\<open>updateReport(updatedReport, options)\<close>. The handler runs with the closures of the
  last render: \<^verbatim>\<open>saveToDb\<close> is \<open>saveToDb_memo s\<close> and \<^verbatim>\<open>debouncedSave\<close> is
  \<open>debouncedSave s\<close>; the state it sets is rendered when it returns.
\<close>

definition updateReport :: "Report \<Rightarrow> bool \<Rightarrow> App \<Rightarrow> App" where
  "updateReport updatedReport immediate s =
     (let s1 = s\<lparr>reports := map (\<lambda>r. if report_id r = report_id updatedReport then updatedReport else r)
                                (reports s),
                 syncStatus := Unsaved\<rparr>
      in render (if immediate
                 then saveToDb (saveToDb_memo s) updatedReport Nothing (debounced_cancel s1)
                 else debounced_call updatedReport s1))"

text \<open>
  \<^verbatim>\<open>handleBackFromEditor\<close>: flushes when the rendered status is \<^verbatim>\<open>'unsaved'\<close>
  and the active report exists, and closes the editor after the awaited flush (at
  once when there is nothing to await).
\<close>

definition handleBackFromEditor :: "App \<Rightarrow> App" where
  "handleBackFromEditor s =
     (case find (\<lambda>r. Some (report_id r) = activeReportId s) (reports s) of
        Some reportToSave \<Rightarrow>
          (if syncStatus s = Unsaved
           then (if saveToDb_memo s = Saving
                 then render ((debounced_cancel s)\<lparr>activeReportId := None\<rparr>)
                 else render (saveToDb (saveToDb_memo s) reportToSave CloseEditor (debounced_cancel s)))
           else render (s\<lparr>activeReportId := None\<rparr>))
      | None \<Rightarrow> render (s\<lparr>activeReportId := None\<rparr>))"

text \<open>A timer that is due runs its callback \<^verbatim>\<open>func(...args)\<close>.\<close>

definition fire :: "timer \<Rightarrow> App \<Rightarrow> App" where
  "fire t s = render (saveToDb (timer_func t) (timer_args t) Nothing s)"

text \<open>
  Time passes by \<open>dt\<close> milliseconds with no other event: the timers due by then fire
  in the order they were set (every delay is the same, so this is the order they are due).
\<close>

definition advance :: "nat \<Rightarrow> App \<Rightarrow> App" where
  "advance dt s =
     (let now = clock s + dt
      in fold fire (filter (\<lambda>t. due t \<le> now) (timers s))
                   (s\<lparr>clock := now, timers := filter (\<lambda>t. \<not> due t \<le> now) (timers s)\<rparr>))"

datatype event = Edit Report bool | Back | Tick nat | Settle outcome

fun step :: "event \<Rightarrow> App \<Rightarrow> App" where
  "step (Edit r immediate) s = updateReport r immediate s"
| "step Back s = handleBackFromEditor s"
| "step (Tick dt) s = advance dt s"
| "step (Settle out) s = settle out s"

definition run :: "event list \<Rightarrow> App \<Rightarrow> App" where
  "run es s = fold step es s"


section \<open>Image compression (compressImageFile)\<close>

text \<open>
  A file the user picked: whether the \<^verbatim>\<open>FileReader\<close> can read it, and the natural
  width and height of the bitmap when it decodes (\<open>None\<close>: \<^verbatim>\<open>img.onerror\<close>).
\<close>

record image_file =
  readable :: bool
  natural_size :: "(nat \<times> nat) option"

text \<open>
  The browser's canvas: whether \<^verbatim>\<open>getContext('2d')\<close> gives a context, and whether
  \<^verbatim>\<open>toBlob\<close> gives a blob for a canvas of the given width and height.
\<close>

record canvas_env =
  getContext_2d :: bool
  toBlob_ok :: "nat \<Rightarrow> nat \<Rightarrow> bool"

record image_blob =
  blob_width :: nat
  blob_height :: nat

datatype compress_error = ReadFailed | DecodeFailed | NoCanvasContext | ToBlobFailed

definition MAX_WIDTH :: nat where "MAX_WIDTH = 800"
definition MAX_HEIGHT :: nat where "MAX_HEIGHT = 800"

text \<open>
  The resize of \<^verbatim>\<open>img.onload\<close>, on JavaScript numbers (taken as exact reals):
  \<^verbatim>\<open>if (width > height) { if (width > MAX_WIDTH) { height *= MAX_WIDTH / width; width = MAX_WIDTH; } }
  else if (height > MAX_HEIGHT) { width *= MAX_HEIGHT / height; height = MAX_HEIGHT; }\<close>
\<close>

definition scaled_size :: "nat \<Rightarrow> nat \<Rightarrow> real \<times> real" where
  "scaled_size width height =
     (if width > height
      then (if width > MAX_WIDTH
            then (real MAX_WIDTH, real height * (real MAX_WIDTH / real width))
            else (real width, real height))
      else if height > MAX_HEIGHT
           then (real width * (real MAX_HEIGHT / real height), real MAX_HEIGHT)
           else (real width, real height))"

text \<open>
  \<^verbatim>\<open>canvas.width = width; canvas.height = height\<close>: the canvas attributes are unsigned
  integers, the assignment drops the fraction.
\<close>

definition canvas_size :: "nat \<Rightarrow> nat \<Rightarrow> nat \<times> nat" where
  "canvas_size width height =
     (case scaled_size width height of (w, h) \<Rightarrow> (nat \<lfloor>w\<rfloor>, nat \<lfloor>h\<rfloor>))"

definition compressImageFile :: "canvas_env \<Rightarrow> image_file \<Rightarrow> compress_error + image_blob" where
  "compressImageFile env file =
     (if \<not> readable file then Inl ReadFailed
      else case natural_size file of
             None \<Rightarrow> Inl DecodeFailed
           | Some (width, height) \<Rightarrow>
               (case canvas_size width height of
                  (cw, ch) \<Rightarrow>
                    if \<not> getContext_2d env then Inl NoCanvasContext
                    else if toBlob_ok env cw ch then Inr \<lparr>blob_width = cw, blob_height = ch\<rparr>
                    else Inl ToBlobFailed))"

section \<open>Storage gateway (storageService.ts)\<close>

text \<open>
  The storage bucket: \<open>upload_name blob\<close> is the generated file name when
  \<^verbatim>\<open>uploadBytes\<close> succeeds for the blob, \<open>None\<close> when the upload throws (also when
  storage is not initialised); \<open>delete_ok path\<close> tells whether \<^verbatim>\<open>deleteObject\<close>
  succeeds.
\<close>

record storage_env =
  upload_name :: "image_blob \<Rightarrow> string option"
  delete_ok :: "string \<Rightarrow> bool"

definition uploadImage :: "storage_env \<Rightarrow> image_blob \<Rightarrow> string \<Rightarrow> string \<Rightarrow> string option" where
  "uploadImage st imageBlob uid rid =
     (case upload_name st imageBlob of
        None \<Rightarrow> None
      | Some imageName \<Rightarrow> Some (''images/'' @ uid @ ''/'' @ rid @ ''/'' @ imageName))"

section \<open>Report editor (ReportEditor and ReportPointCard)\<close>

text \<open>
  The editor with the \<^verbatim>\<open>App\<close> it reports to (\<^verbatim>\<open>onUpdateReport\<close> is
  \<^verbatim>\<open>updateReport\<close>) and the paths stored in the bucket. \<open>setLocalReport_calls\<close>
  logs every \<^verbatim>\<open>setLocalReport\<close> of a handler, in order.
\<close>

record Editor =
  localReport :: Report
  currentUserId :: string
  setLocalReport_calls :: "Report list"
  app :: App
  bucket :: "string list"

definition isOwner :: "Editor \<Rightarrow> bool" where
  "isOwner e = (userId (localReport e) = currentUserId e)"

definition handleLocalUpdate :: "Report \<Rightarrow> bool \<Rightarrow> Editor \<Rightarrow> Editor" where
  "handleLocalUpdate updatedReport immediate e =
     (if \<not> isOwner e then e
      else e\<lparr>localReport := updatedReport,
             setLocalReport_calls := setLocalReport_calls e @ [updatedReport],
             app := updateReport updatedReport immediate (app e)\<rparr>)"




text \<open>A \<^verbatim>\<open>Partial<ReportPoint>\<close> and the spread \<^verbatim>\<open>{ ...p, ...newPointData }\<close>.\<close>

record PartialPoint =
  new_id :: "string option"
  new_text :: "string option"
  new_imagePaths :: "string list option"

definition spread :: "ReportPoint \<Rightarrow> PartialPoint \<Rightarrow> ReportPoint" where
  "spread p d =
     \<lparr>point_id = (case new_id d of None \<Rightarrow> point_id p | Some v \<Rightarrow> v),
      point_text = (case new_text d of None \<Rightarrow> point_text p | Some v \<Rightarrow> v),
      imagePaths = (case new_imagePaths d of None \<Rightarrow> imagePaths p | Some v \<Rightarrow> v)\<rparr>"

definition updatePoint :: "string \<Rightarrow> PartialPoint \<Rightarrow> bool \<Rightarrow> Editor \<Rightarrow> Editor" where
  "updatePoint i newPointData immediate e =
     (if \<not> isOwner e then e
      else handleLocalUpdate
             ((localReport e)\<lparr>points :=
                 map (\<lambda>p. if point_id p = i then spread p newPointData else p) (points (localReport e))\<rparr>)
             immediate e)"


text \<open>
  One element of \<^verbatim>\<open>uploadPromises\<close>: compress, then upload; \<open>None\<close> when either
  rejects. The card's \<^verbatim>\<open>userId\<close> and \<^verbatim>\<open>reportId\<close> are the local report's.
\<close>

definition upload_one :: "canvas_env \<Rightarrow> storage_env \<Rightarrow> Editor \<Rightarrow> image_file \<Rightarrow> string option" where
  "upload_one cv st e file =
     (case compressImageFile cv file of
        Inl err \<Rightarrow> None
      | Inr compressedBlob \<Rightarrow>
          uploadImage st compressedBlob (userId (localReport e)) (report_id (localReport e)))"

text \<open>
  \<^verbatim>\<open>handleImageUpload(files)\<close> of the card showing \<open>point\<close>. Every promise runs, so
  every upload that succeeds reaches the bucket; \<^verbatim>\<open>Promise.all\<close> resolves with all
  paths in the order of the files, or rejects when one promise rejects, and then the
  \<^verbatim>\<open>catch\<close> only logs.
\<close>

definition handleImageUpload ::
    "canvas_env \<Rightarrow> storage_env \<Rightarrow> image_file list \<Rightarrow> ReportPoint \<Rightarrow> Editor \<Rightarrow> Editor" where
  "handleImageUpload cv st files point e =
     (if files = [] \<or> \<not> isOwner e then e
      else let results = map (upload_one cv st e) files;
               newPaths = List.map_filter (\<lambda>r. r) results;
               e1 = e\<lparr>bucket := bucket e @ newPaths\<rparr>
           in if list_all (\<lambda>r. r \<noteq> None) results
              then updatePoint (point_id point)
                     \<lparr>new_id = None, new_text = None,
                      new_imagePaths = Some (imagePaths point @ newPaths)\<rparr>
                     True e1
              else e1)"



section \<open>Vocabulary of the properties\<close>

text \<open>
  A state as a render leaves it: the memoised \<^verbatim>\<open>saveToDb\<close> and the current debounced
  function were built for the current \<^verbatim>\<open>syncStatus\<close>, with the delay of 1500 ms.
\<close>

definition rendered :: "App \<Rightarrow> bool" where
  "rendered s =
     (saveToDb_memo s = syncStatus s \<and> func (debouncedSave s) = syncStatus s
      \<and> waitFor (debouncedSave s) = 1500)"


text \<open>The report with the image list of the points named \<open>i\<close> replaced.\<close>

definition with_images :: "string \<Rightarrow> string list \<Rightarrow> Report \<Rightarrow> Report" where
  "with_images i paths r =
     r\<lparr>points := map (\<lambda>p. if point_id p = i then p\<lparr>imagePaths := paths\<rparr> else p) (points r)\<rparr>"

section \<open>Export renderers (pdfService.ts, docxService.ts)\<close>

subsection \<open>Strings the renderers build\<close>

text \<open>The decimal digits of a number, as a template literal prints \<^verbatim>\<open>${index + 1}\<close>.\<close>

fun number_string :: "nat \<Rightarrow> string" where
  "number_string n =
     (if n < 10 then [''0123456789'' ! n]
      else number_string (n div 10) @ [''0123456789'' ! (n mod 10)])"

declare number_string.simps [simp del]

text \<open>
  \<^verbatim>\<open>report.title.replace(/[^a-z0-9]/gi, '_').toLowerCase()\<close>: every code unit that is
  not an ASCII letter or digit is replaced by one underscore (the flag \<^verbatim>\<open>g\<close> replaces
  every match, and a match is one code unit), then the letters are lowered.
\<close>

definition alphanumeric :: "char \<Rightarrow> bool" where
  "alphanumeric c =
     (c \<in> set ''abcdefghijklmnopqrstuvwxyz'' \<or> c \<in> set ''ABCDEFGHIJKLMNOPQRSTUVWXYZ''
      \<or> c \<in> set ''0123456789'')"

definition toLowerCase :: "char \<Rightarrow> char" where
  "toLowerCase c =
     (case map_of (zip ''ABCDEFGHIJKLMNOPQRSTUVWXYZ'' ''abcdefghijklmnopqrstuvwxyz'') c of
        None \<Rightarrow> c
      | Some l \<Rightarrow> l)"

definition safeTitle :: "string \<Rightarrow> string" where
  "safeTitle t = map toLowerCase (map (\<lambda>c. if alphanumeric c then c else CHR ''_'') t)"

subsection \<open>PDF\<close>

definition FONT_TITLE :: real where "FONT_TITLE = 22"
definition FONT_HEADING_2 :: real where "FONT_HEADING_2 = 16"
definition FONT_HEADING_3 :: real where "FONT_HEADING_3 = 14"
definition FONT_BODY :: real where "FONT_BODY = 12"
definition FONT_META :: real where "FONT_META = 10"

definition MARGIN_TOP :: real where "MARGIN_TOP = 20"
definition MARGIN_BOTTOM :: real where "MARGIN_BOTTOM = 20"
definition MARGIN_LEFT :: real where "MARGIN_LEFT = 20"
definition MARGIN_RIGHT :: real where "MARGIN_RIGHT = 20"

definition LINE_HEIGHT :: real where "LINE_HEIGHT = 14 / 10"
definition a4Width :: real where "a4Width = 210"
definition a4Height :: real where "a4Height = 297"
definition printableWidth :: real where "printableWidth = a4Width - MARGIN_LEFT - MARGIN_RIGHT"

text \<open>The factor \<^verbatim>\<open>0.352778\<close> from points to millimetres.\<close>

definition PT_TO_MM :: real where "PT_TO_MM = 352778 / 1000000"

datatype font_style = Normal | Bold | Italic

datatype alignment = AlignLeft | AlignCenter

text \<open>
  What the renderer gets from outside: the number of lines \<^verbatim>\<open>pdf.splitTextToSize\<close>
  wraps a text to in the current font, \<^verbatim>\<open>new Date(s).toLocaleDateString()\<close>, and for
  a storage path the natural width and height that \<^verbatim>\<open>getDownloadUrl\<close> followed by
  \<^verbatim>\<open>getImageData\<close> resolve with (\<open>None\<close>: one of the two rejects). JavaScript
  numbers are taken as exact reals.
\<close>

record pdf_env =
  splitTextToSize :: "font_style \<Rightarrow> real \<Rightarrow> string \<Rightarrow> nat"
  toLocaleDateString :: "string \<Rightarrow> string"
  getImageData :: "string \<Rightarrow> (nat \<times> nat) option"

datatype pdf_item =
    TextItem string real font_style alignment
  | ImageItem string real real
  | LineItem

record placed =
  on_page :: nat
  at_y :: real
  item_of :: pdf_item

text \<open>The document so far: the number of pages (drawing goes to the last one), the cursor, and what was drawn.\<close>

record pdf_doc =
  pages :: nat
  currentY :: real
  content :: "placed list"

definition addPage :: "pdf_doc \<Rightarrow> pdf_doc" where
  "addPage d = d\<lparr>pages := pages d + 1, currentY := MARGIN_TOP\<rparr>"

definition checkAndAddPage :: "real \<Rightarrow> pdf_doc \<Rightarrow> pdf_doc" where
  "checkAndAddPage spaceNeeded d =
     (if currentY d + spaceNeeded > a4Height - MARGIN_BOTTOM then addPage d else d)"

definition draw :: "pdf_item \<Rightarrow> pdf_doc \<Rightarrow> pdf_doc" where
  "draw it d = d\<lparr>content := content d @ [\<lparr>on_page = pages d, at_y = currentY d, item_of = it\<rparr>]\<rparr>"

definition move_down :: "real \<Rightarrow> pdf_doc \<Rightarrow> pdf_doc" where
  "move_down dy d = d\<lparr>currentY := currentY d + dy\<rparr>"

definition addWrappedText ::
    "pdf_env \<Rightarrow> string \<Rightarrow> real \<Rightarrow> font_style \<Rightarrow> alignment \<Rightarrow> pdf_doc \<Rightarrow> pdf_doc" where
  "addWrappedText env txt fontSize style al d =
     (let shown = (if txt = [] then '' '' else txt);
          textLines = splitTextToSize env style fontSize shown;
          blockHeight = real textLines * fontSize * PT_TO_MM * LINE_HEIGHT
      in move_down blockHeight (draw (TextItem shown fontSize style al) (checkAndAddPage blockHeight d)))"

text \<open>\<^verbatim>\<open>imageSizes[`${point.id}-${imgIndex}`] || 60\<close>: a missing key and the value 0 give 60.\<close>

definition sizePercent_of :: "(string \<Rightarrow> real option) \<Rightarrow> ReportPoint \<Rightarrow> nat \<Rightarrow> real" where
  "sizePercent_of imageSizes point imgIndex =
     (case imageSizes (point_id point @ ''-'' @ number_string imgIndex) of
        None \<Rightarrow> 60
      | Some v \<Rightarrow> if v = 0 then 60 else v)"

text \<open>
  The body of the inner \<^verbatim>\<open>try\<close> once the image data is there: the scaled size, the
  page break, \<^verbatim>\<open>pdf.addImage\<close>, the cursor. The natural width of a decoded bitmap is
  positive; the properties below assume it where the division matters.
\<close>

definition drawImage :: "string \<Rightarrow> real \<Rightarrow> nat \<times> nat \<Rightarrow> pdf_doc \<Rightarrow> pdf_doc" where
  "drawImage path sizePercent dims d =
     (let desiredWidth = printableWidth * (sizePercent / 100);
          aspectRatio = real (snd dims) / real (fst dims);
          imgHeight = desiredWidth * aspectRatio;
          requiredSpace = imgHeight + 5;
          printablePageHeight = a4Height - MARGIN_TOP - MARGIN_BOTTOM;
          d1 = (if currentY d + requiredSpace > a4Height - MARGIN_BOTTOM
                   \<and> requiredSpace \<le> printablePageHeight
                then addPage d else d)
      in move_down requiredSpace (draw (ImageItem path desiredWidth imgHeight) d1))"

text \<open>One turn of the loop over \<^verbatim>\<open>point.imagePaths.entries()\<close>, with its \<^verbatim>\<open>catch\<close>.\<close>

definition addPointImage ::
    "pdf_env \<Rightarrow> (string \<Rightarrow> real option) \<Rightarrow> ReportPoint \<Rightarrow> nat \<times> string \<Rightarrow> pdf_doc \<Rightarrow> pdf_doc" where
  "addPointImage env imageSizes point ip d =
     (case getImageData env (snd ip) of
        None \<Rightarrow> addWrappedText env ''[Image could not be loaded]'' FONT_META Italic AlignLeft d
      | Some dims \<Rightarrow> drawImage (snd ip) (sizePercent_of imageSizes point (fst ip)) dims d)"

text \<open>One turn of the loop over \<^verbatim>\<open>report.points.entries()\<close>; \<open>n\<close> is \<^verbatim>\<open>report.points.length\<close>.\<close>

definition addReportPoint ::
    "pdf_env \<Rightarrow> (string \<Rightarrow> real option) \<Rightarrow> nat \<Rightarrow> nat \<times> ReportPoint \<Rightarrow> pdf_doc \<Rightarrow> pdf_doc" where
  "addReportPoint env imageSizes n ip d =
     (let d1 = checkAndAddPage (FONT_HEADING_3 * PT_TO_MM * LINE_HEIGHT) d;
          d2 = addWrappedText env (''Point #'' @ number_string (fst ip + 1)) FONT_HEADING_3 Bold AlignLeft d1;
          d3 = move_down 2 d2;
          d4 = addWrappedText env (point_text (snd ip)) FONT_BODY Normal AlignLeft d3;
          d5 = move_down 5 d4;
          d6 = fold (addPointImage env imageSizes (snd ip)) (enumerate 0 (imagePaths (snd ip))) d5
      in if fst ip + 1 < n
         then move_down 5 (draw LineItem (move_down 5 (checkAndAddPage 10 d6)))
         else d6)"

record pdf_result =
  pdf_ok :: bool
  pdf_file :: string
  pdf_document :: pdf_doc

definition generatePdf :: "pdf_env \<Rightarrow> Report \<Rightarrow> (string \<Rightarrow> real option) \<Rightarrow> pdf_result" where
  "generatePdf env report imageSizes =
     (let d0 = \<lparr>pages = 1, currentY = MARGIN_TOP, content = []\<rparr>;
          d1 = move_down 4 (addWrappedText env (title report) FONT_TITLE Bold AlignCenter d0);
          d2 = move_down 2 (addWrappedText env (area report) FONT_HEADING_2 Normal AlignCenter d1);
          d3 = move_down 10 (addWrappedText env
                 (''Generated: '' @ toLocaleDateString env (createdAt report))
                 FONT_META Italic AlignCenter d2);
          d4 = move_down 10 (draw LineItem d3);
          d5 = fold (addReportPoint env imageSizes (length (points report)))
                    (enumerate 0 (points report)) d4
      in \<lparr>pdf_ok = True,
          pdf_file = ''Report_'' @ safeTitle (title report) @ ''.pdf'',
          pdf_document = d5\<rparr>)"

subsection \<open>DOCX\<close>

text \<open>
  What the DOCX renderer gets from outside: today's \<^verbatim>\<open>toLocaleDateString()\<close>, and for
  a storage path the natural size of the image it fetched and decoded (\<open>None\<close>: the
  download URL, the fetch or the decoding fails).
\<close>

record docx_env =
  today :: string
  fetched_image :: "string \<Rightarrow> (nat \<times> nat) option"

datatype docx_paragraph =
    HeadingParagraph nat string
  | TextParagraph string
  | ImageParagraph string real real

text \<open>
  \<^verbatim>\<open>processImage\<close>: \<open>None\<close> is its \<^verbatim>\<open>null\<close>. For a width of 0 JavaScript's
  \<^verbatim>\<open>maxWidth / image.width\<close> is \<^verbatim>\<open>Infinity\<close> and the minimum is 1.
\<close>

definition processImage :: "docx_env \<Rightarrow> string \<Rightarrow> (real \<times> real) option" where
  "processImage env path =
     (case fetched_image env path of
        None \<Rightarrow> None
      | Some (w, h) \<Rightarrow>
          (let maxWidth = 550;
               scale = (if w = 0 then 1 else min 1 (maxWidth / real w))
           in Some (real w * scale, real h * scale)))"

definition push_image :: "docx_env \<Rightarrow> string \<Rightarrow> docx_paragraph list \<Rightarrow> docx_paragraph list" where
  "push_image env imagePath pointChildren =
     (case processImage env imagePath of
        None \<Rightarrow> pointChildren
      | Some (w, h) \<Rightarrow> pointChildren @ [ImageParagraph imagePath w h])"

definition push_point ::
    "docx_env \<Rightarrow> nat \<times> ReportPoint \<Rightarrow> docx_paragraph list \<Rightarrow> docx_paragraph list" where
  "push_point env ip pointChildren =
     fold (push_image env) (imagePaths (snd ip))
       (pointChildren @ [TextParagraph (''Point #'' @ number_string (fst ip + 1)),
                         TextParagraph (point_text (snd ip))])"

record docx_result =
  docx_ok :: bool
  docx_file :: string
  children :: "docx_paragraph list"

definition generateDocx :: "docx_env \<Rightarrow> Report \<Rightarrow> docx_result" where
  "generateDocx env report =
     (let pointChildren = fold (push_point env) (enumerate 0 (points report)) []
      in \<lparr>docx_ok = True,
          docx_file = ''Report_'' @ safeTitle (title report) @ ''.docx'',
          children = [HeadingParagraph 1 (title report), HeadingParagraph 2 (area report),
                      TextParagraph (''Generated: '' @ today env),
                      HeadingParagraph 2 ''Report Points''] @ pointChildren\<rparr>)"

section \<open>Document store gateway (dbService.ts)\<close>

text \<open>
  The configured database as \<^verbatim>\<open>getReports\<close> sees it: the query
  \<^verbatim>\<open>orderBy('createdAt', 'desc').get()\<close> either throws or gives the documents, in the
  order of the snapshot. An unconfigured database is \<open>None\<close>.
\<close>

datatype firestore = Throws string | Snapshot "Report list"

text \<open>How a promise settles; the second component of a result is what was logged with \<^verbatim>\<open>console.error\<close>.\<close>

datatype 'a settled = Rejects string | Resolves 'a

definition getReports :: "firestore option \<Rightarrow> Report list settled \<times> string list" where
  "getReports db =
     (case db of
        None \<Rightarrow> (Resolves [], [])
      | Some (Throws err) \<Rightarrow> (Resolves [], [''Error fetching reports: '' @ err])
      | Some (Snapshot docs) \<Rightarrow> (Resolves docs, []))"

section \<open>What an export is expected to hold\<close>

text \<open>
  The items of a PDF in document order, positions left out, as the specification words
  them: every point gives its heading and its text, every image path gives the image
  or, when its fetch fails, the placeholder line, and points are separated by a rule.
\<close>

definition image_or_placeholder ::
    "pdf_env \<Rightarrow> (string \<Rightarrow> real option) \<Rightarrow> ReportPoint \<Rightarrow> nat \<times> string \<Rightarrow> pdf_item" where
  "image_or_placeholder env imageSizes point ip =
     (case getImageData env (snd ip) of
        None \<Rightarrow> TextItem ''[Image could not be loaded]'' FONT_META Italic AlignLeft
      | Some dims \<Rightarrow>
          ImageItem (snd ip)
            (printableWidth * (sizePercent_of imageSizes point (fst ip) / 100))
            (printableWidth * (sizePercent_of imageSizes point (fst ip) / 100)
               * (real (snd dims) / real (fst dims))))"

definition expected_point_items ::
    "pdf_env \<Rightarrow> (string \<Rightarrow> real option) \<Rightarrow> nat \<Rightarrow> nat \<times> ReportPoint \<Rightarrow> pdf_item list" where
  "expected_point_items env imageSizes n ip =
     [TextItem (''Point #'' @ number_string (fst ip + 1)) FONT_HEADING_3 Bold AlignLeft,
      TextItem (if point_text (snd ip) = [] then '' '' else point_text (snd ip)) FONT_BODY Normal AlignLeft]
     @ map (image_or_placeholder env imageSizes (snd ip)) (enumerate 0 (imagePaths (snd ip)))
     @ (if fst ip + 1 < n then [LineItem] else [])"





text \<open>What was drawn, positions left out.\<close>

definition items :: "pdf_doc \<Rightarrow> pdf_item list" where
  "items d = map item_of (content d)"

section \<open>Example inputs\<close>

definition example_point :: ReportPoint where
  "example_point = \<lparr>point_id = ''p1'', point_text = ''a'', imagePaths = [''images/u1/r1/old.jpg'']\<rparr>"

definition example_report :: Report where
  "example_report =
     \<lparr>report_id = ''r1'', userId = ''u1'', userEmail = None, title = ''Site Visit'',
      area = ''North'', createdAt = ''2024-01-01'', points = [example_point]\<rparr>"


definition example_App :: App where
  "example_App = initial_App [example_report] (Some ''r1'')"

definition example_editor :: "string \<Rightarrow> Editor" where
  "example_editor viewer =
     \<lparr>localReport = example_report, currentUserId = viewer, setLocalReport_calls = [],
      app = example_App, bucket = [''images/u1/r1/old.jpg'']\<rparr>"

definition example_canvas :: canvas_env where
  "example_canvas = \<lparr>getContext_2d = True, toBlob_ok = (\<lambda>w h. 0 < w \<and> 0 < h)\<rparr>"

definition example_storage :: storage_env where
  "example_storage =
     \<lparr>upload_name = (\<lambda>b. if blob_width b = 800 then Some ''img_1.jpg'' else Some ''img_2.jpg''),
      delete_ok = (\<lambda>p. True)\<rparr>"

definition example_photo :: "nat \<Rightarrow> nat \<Rightarrow> image_file" where
  "example_photo w h = \<lparr>readable = True, natural_size = Some (w, h)\<rparr>"

definition broken_photo :: image_file where
  "broken_photo = \<lparr>readable = True, natural_size = None\<rparr>"



text \<open>
  A report of two points for the exports: the first point has three images, of which
  the second cannot be fetched.
\<close>

definition export_report :: Report where
  "export_report =
     \<lparr>report_id = ''r1'', userId = ''u1'', userEmail = None, title = ''Site Visit #2 (North)'',
      area = ''North'', createdAt = ''2024-01-01'',
      points = [\<lparr>point_id = ''p1'', point_text = ''Fence'', imagePaths = [''a.jpg'', ''gone.jpg'', ''b.jpg'']\<rparr>,
                \<lparr>point_id = ''p2'', point_text = ''Gate'', imagePaths = []\<rparr>]\<rparr>"

definition export_pdf_env :: pdf_env where
  "export_pdf_env =
     \<lparr>splitTextToSize = (\<lambda>style fontSize txt. 1),
      toLocaleDateString = (\<lambda>s. s),
      getImageData = (\<lambda>path. if path = ''gone.jpg'' then None else Some (400, 300))\<rparr>"

definition export_docx_env :: docx_env where
  "export_docx_env =
     \<lparr>today = ''2024-01-02'',
      fetched_image = (\<lambda>path. if path = ''gone.jpg'' then None else Some (1100, 800))\<rparr>"

text \<open>A report with one portrait image, exported at 100% of the printable width.\<close>

definition tall_report :: Report where
  "tall_report =
     \<lparr>report_id = ''r2'', userId = ''u1'', userEmail = None, title = ''Mast'',
      area = ''North'', createdAt = ''2024-01-01'',
      points = [\<lparr>point_id = ''p1'', point_text = ''Mast'', imagePaths = [''mast.jpg'']\<rparr>]\<rparr>"

definition tall_pdf_env :: pdf_env where
  "tall_pdf_env =
     \<lparr>splitTextToSize = (\<lambda>style fontSize txt. 1),
      toLocaleDateString = (\<lambda>s. s),
      getImageData = (\<lambda>path. Some (100, 200))\<rparr>"

definition full_width :: "string \<Rightarrow> real option" where
  "full_width key = Some 100"

section \<open>Properties of the sync controller\<close>

subsection \<open>What each operation leaves alone\<close>

lemma render_fields [simp]:
  "timers (render s) = timers s" "saveReport_calls (render s) = saveReport_calls s"
  "in_flight (render s) = in_flight s" "syncStatus (render s) = syncStatus s"
  "toast (render s) = toast s" "reports (render s) = reports s"
  "activeReportId (render s) = activeReportId s" "clock (render s) = clock s"
  "next_handle (render s) = next_handle s"
  "saveToDb_memo (render s) = syncStatus s"
  by (simp_all add: render_def)

lemma debounced_cancel_fields [simp]:
  "saveReport_calls (debounced_cancel s) = saveReport_calls s"
  "in_flight (debounced_cancel s) = in_flight s" "syncStatus (debounced_cancel s) = syncStatus s"
  "toast (debounced_cancel s) = toast s" "reports (debounced_cancel s) = reports s"
  "activeReportId (debounced_cancel s) = activeReportId s" "clock (debounced_cancel s) = clock s"
  "next_handle (debounced_cancel s) = next_handle s"
  "saveToDb_memo (debounced_cancel s) = saveToDb_memo s"
  "debouncedSave (debounced_cancel s) = debouncedSave s"
  by (simp_all add: debounced_cancel_def clearTimeout_def split: option.splits)


lemma saveToDb_fields [simp]:
  "timers (saveToDb c r k s) = timers s"
  "toast (saveToDb c r k s) = toast s" "reports (saveToDb c r k s) = reports s"
  "activeReportId (saveToDb c r k s) = activeReportId s" "clock (saveToDb c r k s) = clock s"
  "next_handle (saveToDb c r k s) = next_handle s"
  "saveToDb_memo (saveToDb c r k s) = saveToDb_memo s"
  "debouncedSave (saveToDb c r k s) = debouncedSave s"
  by (simp_all add: saveToDb_def)

lemma debounced_call_fields [simp]:
  "saveReport_calls (debounced_call r s) = saveReport_calls s"
  "in_flight (debounced_call r s) = in_flight s" "syncStatus (debounced_call r s) = syncStatus s"
  "toast (debounced_call r s) = toast s" "reports (debounced_call r s) = reports s"
  "activeReportId (debounced_call r s) = activeReportId s" "clock (debounced_call r s) = clock s"
  "saveToDb_memo (debounced_call r s) = saveToDb_memo s"
  "func (debouncedSave (debounced_call r s)) = func (debouncedSave s)"
  "waitFor (debouncedSave (debounced_call r s)) = waitFor (debouncedSave s)"
  by (simp_all add: debounced_call_def Let_def clearTimeout_def split: option.splits)

lemma settle_timers [simp]: "timers (settle out s) = timers s"
  by (cases "in_flight s"; cases out; simp add: settle_def Let_def showToast_def split: continuation.splits)

lemma settle_calls [simp]: "saveReport_calls (settle out s) = saveReport_calls s"
  by (cases "in_flight s"; cases out; simp add: settle_def Let_def showToast_def split: continuation.splits)

subsection \<open>Every handler ends in a rendered state\<close>

lemma rendered_render:
  "func (debouncedSave s) = saveToDb_memo s \<Longrightarrow> waitFor (debouncedSave s) = 1500 \<Longrightarrow> rendered (render s)"
  by (simp add: rendered_def render_def debounce_def)

lemma rendered_initial: "rendered (initial_App rs a)"
  by (simp add: rendered_def initial_App_def debounce_def)

lemma rendered_updateReport: "rendered s \<Longrightarrow> rendered (updateReport r i s)"
  unfolding updateReport_def Let_def
  by (rule rendered_render) (simp_all add: rendered_def)

lemma rendered_fire: "rendered s \<Longrightarrow> rendered (fire t s)"
  unfolding fire_def by (rule rendered_render) (simp_all add: rendered_def)

lemma rendered_fold_fire: "rendered s \<Longrightarrow> rendered (fold fire ts s)"
  by (induction ts arbitrary: s) (simp_all add: rendered_fire)

lemma rendered_advance: "rendered s \<Longrightarrow> rendered (advance dt s)"
  unfolding advance_def Let_def
  by (rule rendered_fold_fire) (simp add: rendered_def)

lemma rendered_settle: "rendered s \<Longrightarrow> rendered (settle out s)"
proof (cases "in_flight s")
  case Nil
  then show "rendered s \<Longrightarrow> rendered (settle out s)" by (simp add: settle_def)
next
  case (Cons k ks)
  assume "rendered s"
  then show "rendered (settle out s)"
    unfolding settle_def Let_def Cons list.case
    by (intro rendered_render) (simp_all add: rendered_def showToast_def split: outcome.splits continuation.splits)
qed

lemma rendered_back: "rendered s \<Longrightarrow> rendered (handleBackFromEditor s)"
proof -
  assume r: "rendered s"
  have a: "\<And>x. func (debouncedSave x) = func (debouncedSave s)
       \<Longrightarrow> waitFor (debouncedSave x) = waitFor (debouncedSave s)
       \<Longrightarrow> saveToDb_memo x = saveToDb_memo s \<Longrightarrow> rendered (render x)"
    using r by (intro rendered_render) (simp_all add: rendered_def)
  show ?thesis
    unfolding handleBackFromEditor_def
    by (simp split: option.splits; intro conjI impI allI a; simp)
qed

lemma rendered_step: "rendered s \<Longrightarrow> rendered (step e s)"
  by (cases e) (simp_all add: rendered_updateReport rendered_back rendered_advance rendered_settle)

lemma rendered_run: "rendered s \<Longrightarrow> rendered (run es s)"
  unfolding run_def by (induction es arbitrary: s) (simp_all add: rendered_step)

lemma rendered_reachable: "rendered (run es (initial_App rs a))"
  by (rule rendered_run) (rule rendered_initial)

subsection \<open>Debounced edits\<close>

text \<open>
  C1 (the code departs from the claim). The claim: rapid non-immediate edits within the
  debounce window lead to exactly one \<^verbatim>\<open>saveReport\<close> call, carrying the final text.
  The code, from the state \<^verbatim>\<open>'saved'\<close>: the first edit sets \<^verbatim>\<open>syncStatus\<close> to
  \<^verbatim>\<open>'unsaved'\<close>, the render replaces \<^verbatim>\<open>saveToDb\<close> and with it the debounced
  function, and the timer of the first edit is never cleared. Two edits 500 ms apart,
  then 1500 ms of quiet, give two calls: the first carries the report of the first edit.
\<close>

theorem two_rapid_edits_two_saves:
  "saveReport_calls (run [Edit r1 False, Tick 500, Edit r2 False, Tick 1500] (initial_App rs a))
   = [r1, r2]"
  by (simp add: run_def initial_App_def updateReport_def advance_def render_def debounced_call_def
      debounce_def fire_def saveToDb_def Let_def)

text \<open>
  Where the debounced function is not replaced (the status is already
  \<^verbatim>\<open>'unsaved'\<close>), the debounce does coalesce: the second edit clears the timer of
  the first, and the one call carries the second report.
\<close>

lemma debounced_edit_state:
  assumes "saveToDb_memo s = Unsaved" "syncStatus s = Unsaved"
  shows "updateReport r False s =
     (debounced_call r (s\<lparr>reports := map (\<lambda>x. if report_id x = report_id r then r else x) (reports s)\<rparr>))"
  using assms by (simp add: updateReport_def Let_def render_def debounced_call_def clearTimeout_def split: option.splits)

lemma debounce_coalesces_when_unsaved:
  assumes "rendered s" "syncStatus s = Unsaved" "timers s = []" "dt < 1500"
  shows "saveReport_calls (advance 1500 (updateReport r2 False (advance dt (updateReport r1 False s))))
           = saveReport_calls s @ [r2]"
proof -
  have m: "saveToDb_memo s = Unsaved" "func (debouncedSave s) = Unsaved" "waitFor (debouncedSave s) = 1500"
    using assms(1,2) by (simp_all add: rendered_def)
  define s1 where "s1 = updateReport r1 False s"
  have s1: "timers s1 = [\<lparr>handle = next_handle s, due = clock s + 1500, timer_func = Unsaved, timer_args = r1\<rparr>]"
    "timeout (debouncedSave s1) = Some (next_handle s)" "func (debouncedSave s1) = Unsaved"
    "waitFor (debouncedSave s1) = 1500" "saveToDb_memo s1 = Unsaved" "syncStatus s1 = Unsaved"
    "saveReport_calls s1 = saveReport_calls s" "clock s1 = clock s"
    unfolding s1_def debounced_edit_state[OF m(1) assms(2)]
    using assms(2,3) m by (simp_all add: debounced_call_def Let_def clearTimeout_def split: option.splits)
  define s2 where "s2 = advance dt s1"
  have s2: "timers s2 = timers s1" "debouncedSave s2 = debouncedSave s1" "saveToDb_memo s2 = Unsaved"
    "syncStatus s2 = Unsaved" "saveReport_calls s2 = saveReport_calls s" "clock s2 = clock s + dt"
    unfolding s2_def using s1 assms(4) by (simp_all add: advance_def Let_def)
  define s3 where "s3 = updateReport r2 False s2"
  have s3: "timers s3 = [\<lparr>handle = next_handle s2, due = clock s + dt + 1500, timer_func = Unsaved, timer_args = r2\<rparr>]"
    "saveReport_calls s3 = saveReport_calls s" "clock s3 = clock s + dt"
    unfolding s3_def debounced_edit_state[OF s2(3,4)]
    using s1 s2 by (simp_all add: debounced_call_def Let_def clearTimeout_def)
  have "saveReport_calls (advance 1500 s3) = saveReport_calls s @ [r2]"
    using s3 by (simp add: advance_def Let_def fire_def saveToDb_def)
  then show ?thesis by (simp add: s3_def s2_def s1_def)
qed

subsection \<open>Immediate mutations\<close>


lemma immediate_calls:
  "saveReport_calls (updateReport r True s) =
     (if saveToDb_memo s = Saving then saveReport_calls s else saveReport_calls s @ [r])"
  by (simp add: updateReport_def Let_def saveToDb_def)







subsection \<open>A flush that fails\<close>






lemma fire_timers [simp]: "timers (fire t s) = timers s"
  by (simp add: fire_def)

lemma fold_fire_timers [simp]: "timers (fold fire ts s) = timers s"
  by (induction ts arbitrary: s) simp_all












section \<open>Properties of image compression\<close>









section \<open>Properties of the editor\<close>



lemma map_filter_all_Some:
  "list_all (\<lambda>r. r \<noteq> None) rs \<Longrightarrow> List.map_filter (\<lambda>r. r) rs = map the rs"
  by (induction rs) (auto simp add: List.map_filter_simps)

lemma updatePoint_owner:
  "isOwner e \<Longrightarrow> updatePoint i d imm e =
     e\<lparr>localReport := (localReport e)\<lparr>points := map (\<lambda>p. if point_id p = i then spread p d else p) (points (localReport e))\<rparr>,
       setLocalReport_calls := setLocalReport_calls e @ [(localReport e)\<lparr>points := map (\<lambda>p. if point_id p = i then spread p d else p) (points (localReport e))\<rparr>],
       app := updateReport ((localReport e)\<lparr>points := map (\<lambda>p. if point_id p = i then spread p d else p) (points (localReport e))\<rparr>) imm (app e)\<rparr>"
  by (simp add: updatePoint_def handleLocalUpdate_def)

lemma spread_images:
  "spread p \<lparr>new_id = None, new_text = None, new_imagePaths = Some v\<rparr> = p\<lparr>imagePaths := v\<rparr>"
  by (simp add: spread_def)

text \<open>
  C8: for the owner and a non-empty batch of files. When every compress-and-upload
  succeeds, the local report is set exactly once, to the report whose point has the old
  image list followed by all new paths in the order of the files, and that same report
  is passed on with the immediate flag (so it is saved unless a save is in flight). When
  any one fails, the local report is not set, and the app state is untouched.
\<close>

theorem handleImageUpload_batch:
  assumes "isOwner e" and "files \<noteq> []"
  shows "(list_all (\<lambda>f. upload_one cv st e f \<noteq> None) files \<longrightarrow>
            localReport (handleImageUpload cv st files point e) =
              with_images (point_id point)
                (imagePaths point @ map (\<lambda>f. the (upload_one cv st e f)) files) (localReport e)
          \<and> setLocalReport_calls (handleImageUpload cv st files point e) =
              setLocalReport_calls e @ [localReport (handleImageUpload cv st files point e)]
          \<and> saveReport_calls (app (handleImageUpload cv st files point e)) =
              (if saveToDb_memo (app e) = Saving then saveReport_calls (app e)
               else saveReport_calls (app e) @ [localReport (handleImageUpload cv st files point e)]))
       \<and> (\<not> list_all (\<lambda>f. upload_one cv st e f \<noteq> None) files \<longrightarrow>
            localReport (handleImageUpload cv st files point e) = localReport e
          \<and> setLocalReport_calls (handleImageUpload cv st files point e) = setLocalReport_calls e
          \<and> app (handleImageUpload cv st files point e) = app e)"
proof -
  let ?rs = "map (upload_one cv st e) files"
  let ?e1 = "e\<lparr>bucket := bucket e @ List.map_filter (\<lambda>r. r) ?rs\<rparr>"
  have all: "list_all (\<lambda>r. r \<noteq> None) ?rs = list_all (\<lambda>f. upload_one cv st e f \<noteq> None) files"
    by (simp add: list_all_iff)
  have own1: "isOwner ?e1" using assms(1) by (simp add: isOwner_def)
  show ?thesis
  proof (cases "list_all (\<lambda>f. upload_one cv st e f \<noteq> None) files")
    case True
    then have mf: "List.map_filter (\<lambda>r. r) ?rs = map (\<lambda>f. the (upload_one cv st e f)) files"
      using map_filter_all_Some[of ?rs] all by (simp add: comp_def)
    have eq: "handleImageUpload cv st files point e =
        updatePoint (point_id point) \<lparr>new_id = None, new_text = None,
           new_imagePaths = Some (imagePaths point @ map (\<lambda>f. the (upload_one cv st e f)) files)\<rparr> True ?e1"
      using assms True all mf by (simp add: handleImageUpload_def Let_def)
    show ?thesis using True
      by (simp add: eq updatePoint_owner[OF own1] with_images_def spread_images immediate_calls)
  next
    case False
    then show ?thesis using assms all by (simp add: handleImageUpload_def Let_def)
  qed
qed

theorem handleImageUpload_batch_witness:
  "isOwner (example_editor ''u1'')
   \<and> list_all (\<lambda>f. upload_one example_canvas example_storage (example_editor ''u1'') f \<noteq> None)
        [example_photo 1600 1200, example_photo 640 480]
   \<and> points (localReport (handleImageUpload example_canvas example_storage
        [example_photo 1600 1200, example_photo 640 480] example_point (example_editor ''u1'')))
     = [example_point\<lparr>imagePaths := [''images/u1/r1/old.jpg'', ''images/u1/r1/img_1.jpg'', ''images/u1/r1/img_2.jpg'']\<rparr>]
   \<and> length (setLocalReport_calls (handleImageUpload example_canvas example_storage
        [example_photo 1600 1200, example_photo 640 480] example_point (example_editor ''u1''))) = 1
   \<and> \<not> list_all (\<lambda>f. upload_one example_canvas example_storage (example_editor ''u1'') f \<noteq> None)
        [example_photo 1600 1200, broken_photo]
   \<and> localReport (handleImageUpload example_canvas example_storage
        [example_photo 1600 1200, broken_photo] example_point (example_editor ''u1'')) = example_report
   \<and> setLocalReport_calls (handleImageUpload example_canvas example_storage
        [example_photo 1600 1200, broken_photo] example_point (example_editor ''u1'')) = []"
proof -
  have o: "isOwner (example_editor ''u1'')"
    by (simp add: isOwner_def example_editor_def example_report_def)
  have c: "canvas_size 1600 1200 = (800, 600)" "canvas_size 640 480 = (640, 480)"
    by (simp_all add: canvas_size_def scaled_size_def MAX_WIDTH_def MAX_HEIGHT_def)
  have u: "upload_one example_canvas example_storage (example_editor ''u1'') (example_photo 1600 1200)
             = Some ''images/u1/r1/img_1.jpg''"
    "upload_one example_canvas example_storage (example_editor ''u1'') (example_photo 640 480)
             = Some ''images/u1/r1/img_2.jpg''"
    "upload_one example_canvas example_storage (example_editor ''u1'') broken_photo = None"
    by (simp_all add: upload_one_def compressImageFile_def c example_photo_def broken_photo_def
        example_canvas_def example_storage_def uploadImage_def example_editor_def example_report_def)
  have l: "localReport (example_editor ''u1'') = example_report"
    "setLocalReport_calls (example_editor ''u1'') = []"
    by (simp_all add: example_editor_def)
  show ?thesis
    using handleImageUpload_batch[OF o, of "[example_photo 1600 1200, example_photo 640 480]"
        example_canvas example_storage example_point]
      handleImageUpload_batch[OF o, of "[example_photo 1600 1200, broken_photo]"
        example_canvas example_storage example_point]
      o u l
    by (simp add: with_images_def example_report_def example_point_def)
qed

section \<open>Properties of the PDF page breaks\<close>

lemmas pdf_consts = FONT_TITLE_def FONT_HEADING_2_def FONT_HEADING_3_def FONT_BODY_def FONT_META_def
  MARGIN_TOP_def MARGIN_BOTTOM_def MARGIN_LEFT_def MARGIN_RIGHT_def LINE_HEIGHT_def a4Width_def
  a4Height_def printableWidth_def PT_TO_MM_def

lemmas pdf_unfolded =
  generatePdf_def[unfolded Let_def] addReportPoint_def[unfolded Let_def]
  addWrappedText_def[unfolded Let_def] drawImage_def[unfolded Let_def]

lemmas pdf_ops = addPointImage_def checkAndAddPage_def addPage_def draw_def move_down_def
  sizePercent_of_def

text \<open>
  The whole export of a report with one image of 100 by 200 pixels at 100% of the
  printable width, every text one line long.
\<close>

lemma tall_report_pdf:
  "pdf_document (generatePdf tall_pdf_env tall_report full_width) =
     \<lparr>pages = 1, currentY = 4345478008 / 10000000,
      content = [
        \<lparr>on_page = 1, at_y = 20, item_of = TextItem ''Mast'' 22 Bold AlignCenter\<rparr>,
        \<lparr>on_page = 1, at_y = 348655624 / 10000000, item_of = TextItem ''North'' 16 Normal AlignCenter\<rparr>,
        \<lparr>on_page = 1, at_y = 447677896 / 10000000, item_of = TextItem ''Generated: 2024-01-01'' 10 Italic AlignCenter\<rparr>,
        \<lparr>on_page = 1, at_y = 597066816 / 10000000, item_of = LineItem\<rparr>,
        \<lparr>on_page = 1, at_y = 697066816 / 10000000, item_of = TextItem ''Point #1'' 14 Bold AlignLeft\<rparr>,
        \<lparr>on_page = 1, at_y = 786211304 / 10000000, item_of = TextItem ''Mast'' 12 Normal AlignLeft\<rparr>,
        \<lparr>on_page = 1, at_y = 895478008 / 10000000, item_of = ImageItem ''mast.jpg'' 170 340\<rparr>]\<rparr>"
  by (simp add: pdf_unfolded pdf_ops pdf_consts tall_pdf_env_def tall_report_def full_width_def
      number_string.simps enumerate_eq_zip)

text \<open>
  C4 as stated fails: the image is 340 mm high at the full width of 170 mm, more than
  the space left under the cursor, and it is drawn at the cursor on page 1; no page is
  added.
\<close>

theorem tall_image_not_moved_counterexample:
  "getImageData tall_pdf_env ''mast.jpg'' = Some (100, 200)
   \<and> last (content (pdf_document (generatePdf tall_pdf_env tall_report full_width)))
       = \<lparr>on_page = 1, at_y = 895478008 / 10000000, item_of = ImageItem ''mast.jpg'' 170 340\<rparr>
   \<and> a4Height - MARGIN_BOTTOM - 895478008 / 10000000 < (340::real)
   \<and> pages (pdf_document (generatePdf tall_pdf_env tall_report full_width)) = 1"
proof -
  have g: "getImageData tall_pdf_env ''mast.jpg'' = Some (100, 200)"
    by (simp add: tall_pdf_env_def)
  show ?thesis
    by (simp add: tall_report_pdf g pdf_consts)
qed

text \<open>
  C4 (amended): for an image of positive natural width drawn at 100% of the printable
  width, whose scaled height exceeds the space left on the current page: when the height
  plus the gap of 5 mm is at most the printable page height (257 mm), the image is drawn
  at the top margin of a new page, where it fits; when height plus gap exceeds the
  printable page height, the guard \<^verbatim>\<open>requiredSpace <= printablePageHeight\<close> keeps it
  on the current page at the cursor.
\<close>

theorem drawImage_page_break:
  assumes "0 < w"
  shows "(a4Height - MARGIN_BOTTOM - currentY d < printableWidth * (real h / real w)
            \<and> printableWidth * (real h / real w) + 5 \<le> a4Height - MARGIN_TOP - MARGIN_BOTTOM \<longrightarrow>
            drawImage path 100 (w, h) d =
              \<lparr>pages = pages d + 1,
               currentY = MARGIN_TOP + (printableWidth * (real h / real w) + 5),
               content = content d @
                 [\<lparr>on_page = pages d + 1, at_y = MARGIN_TOP,
                   item_of = ImageItem path printableWidth (printableWidth * (real h / real w))\<rparr>]\<rparr>
            \<and> MARGIN_TOP + printableWidth * (real h / real w) \<le> a4Height - MARGIN_BOTTOM)
       \<and> (a4Height - MARGIN_TOP - MARGIN_BOTTOM < printableWidth * (real h / real w) + 5 \<longrightarrow>
            drawImage path 100 (w, h) d =
              \<lparr>pages = pages d,
               currentY = currentY d + (printableWidth * (real h / real w) + 5),
               content = content d @
                 [\<lparr>on_page = pages d, at_y = currentY d,
                   item_of = ImageItem path printableWidth (printableWidth * (real h / real w))\<rparr>]\<rparr>)"
  by (simp add: drawImage_def Let_def addPage_def draw_def move_down_def pdf_consts)

theorem drawImage_page_break_witness:
  "(0::nat) < 400
   \<and> a4Height - MARGIN_BOTTOM - currentY \<lparr>pages = 1, currentY = 200, content = []\<rparr>
        < printableWidth * (real (300::nat) / real (400::nat))
   \<and> printableWidth * (real (300::nat) / real (400::nat)) + 5 \<le> a4Height - MARGIN_TOP - MARGIN_BOTTOM
   \<and> drawImage ''a.jpg'' 100 (400, 300) \<lparr>pages = 1, currentY = 200, content = []\<rparr>
       = \<lparr>pages = 2, currentY = 305 / 2,
          content = [\<lparr>on_page = 2, at_y = 20, item_of = ImageItem ''a.jpg'' 170 (255 / 2)\<rparr>]\<rparr>
   \<and> (0::nat) < 100
   \<and> a4Height - MARGIN_TOP - MARGIN_BOTTOM < printableWidth * (real (200::nat) / real (100::nat)) + 5
   \<and> drawImage ''mast.jpg'' 100 (100, 200) \<lparr>pages = 1, currentY = 200, content = []\<rparr>
       = \<lparr>pages = 1, currentY = 545,
          content = [\<lparr>on_page = 1, at_y = 200, item_of = ImageItem ''mast.jpg'' 170 340\<rparr>]\<rparr>"
proof -
  have a: "(0::nat) < 400" and b: "(0::nat) < 100" by simp_all
  show ?thesis
    using drawImage_page_break[OF a, of "\<lparr>pages = 1, currentY = 200, content = []\<rparr>" 300 "''a.jpg''"]
      drawImage_page_break[OF b, of "\<lparr>pages = 1, currentY = 200, content = []\<rparr>" 200 "''mast.jpg''"]
    by (simp add: pdf_consts)
qed

section \<open>Properties of both exports\<close>

lemma items_simps [simp]:
  "items (draw it d) = items d @ [it]"
  "items (move_down dy d) = items d"
  "items (addPage d) = items d"
  "items (checkAndAddPage sp d) = items d"
  by (simp_all add: items_def draw_def move_down_def addPage_def checkAndAddPage_def)

lemma items_addWrappedText [simp]:
  "items (addWrappedText env t fs st al d) = items d @ [TextItem (if t = [] then '' '' else t) fs st al]"
  by (simp add: addWrappedText_def Let_def)

lemma items_drawImage [simp]:
  "items (drawImage path sp dims d) =
     items d @ [ImageItem path (printableWidth * (sp / 100))
                  (printableWidth * (sp / 100) * (real (snd dims) / real (fst dims)))]"
  by (simp add: drawImage_def Let_def)

lemma items_addPointImage [simp]:
  "items (addPointImage env sizes p ip d) = items d @ [image_or_placeholder env sizes p ip]"
  by (simp add: addPointImage_def image_or_placeholder_def split: option.splits)

lemma items_fold_images:
  "items (fold (addPointImage env sizes p) ips d) = items d @ map (image_or_placeholder env sizes p) ips"
  by (induction ips arbitrary: d) simp_all

lemma items_addReportPoint [simp]:
  "items (addReportPoint env sizes n ip d) = items d @ expected_point_items env sizes n ip"
  by (simp add: addReportPoint_def expected_point_items_def Let_def items_fold_images)









subsection \<open>File names\<close>

lemma toLowerCase_range:
  "alphanumeric c \<Longrightarrow> toLowerCase c \<in> set ''abcdefghijklmnopqrstuvwxyz0123456789''"
  unfolding alphanumeric_def toLowerCase_def by auto

lemma safeTitle_chars: "c \<in> set (safeTitle t) \<Longrightarrow> c \<in> set ''abcdefghijklmnopqrstuvwxyz0123456789_''"
proof -
  assume "c \<in> set (safeTitle t)"
  then obtain x where x: "x \<in> set t" "c = toLowerCase (if alphanumeric x then x else CHR ''_'')"
    by (auto simp add: safeTitle_def)
  show ?thesis
  proof (cases "alphanumeric x")
    case True
    then show ?thesis using toLowerCase_range[of x] x by auto
  next
    case False
    then show ?thesis using x by (simp add: toLowerCase_def)
  qed
qed

lemma safeTitle_nth:
  "i < length t \<Longrightarrow> safeTitle t ! i = (if alphanumeric (t ! i) then toLowerCase (t ! i) else CHR ''_'')"
  by (simp add: safeTitle_def toLowerCase_def)

text \<open>
  C9 as stated fails where it says the non-alphanumeric characters are collapsed: the
  three characters between \<open>a\<close> and \<open>b\<close> give three underscores, and the slug is as
  long as the title.
\<close>

theorem slug_not_collapsed_counterexample:
  "safeTitle ''a - b'' = ''a___b''
   \<and> safeTitle ''a - b'' \<noteq> ''a_b''
   \<and> length (safeTitle ''a - b'') = length ''a - b''
   \<and> pdf_file (generatePdf export_pdf_env (export_report\<lparr>title := ''a - b''\<rparr>) (\<lambda>k. None))
       = ''Report_a___b.pdf''
   \<and> docx_file (generateDocx export_docx_env (export_report\<lparr>title := ''a - b''\<rparr>))
       = ''Report_a___b.docx''"
proof -
  have s: "safeTitle ''a - b'' = ''a___b''"
    by (simp add: safeTitle_def alphanumeric_def toLowerCase_def)
  show ?thesis
    by (simp add: s generatePdf_def generateDocx_def Let_def)
qed

text \<open>
  C9 (amended): both exports are named \<^verbatim>\<open>Report_<slug>.pdf\<close> and
  \<^verbatim>\<open>Report_<slug>.docx\<close> with the same slug: the title with every character that is
  not an ASCII letter or digit replaced by one underscore, one for one, and every letter
  lowered. So the slug has the length of the title and only lower-case letters, digits
  and underscores.
\<close>

theorem export_file_names:
  "pdf_file (generatePdf penv r sizes) = ''Report_'' @ safeTitle (title r) @ ''.pdf''
   \<and> docx_file (generateDocx denv r) = ''Report_'' @ safeTitle (title r) @ ''.docx''
   \<and> length (safeTitle (title r)) = length (title r)
   \<and> (\<forall>i < length (title r).
        safeTitle (title r) ! i =
          (if alphanumeric (title r ! i) then toLowerCase (title r ! i) else CHR ''_''))
   \<and> (\<forall>c \<in> set (safeTitle (title r)). c \<in> set ''abcdefghijklmnopqrstuvwxyz0123456789_'')"
  using safeTitle_chars[of _ "title r"] safeTitle_nth[of _ "title r"]
  by (simp add: generatePdf_def generateDocx_def Let_def) (simp add: safeTitle_def)

theorem export_file_names_witness:
  "pdf_file (generatePdf export_pdf_env export_report (\<lambda>k. None)) = ''Report_site_visit__2__north_.pdf''
   \<and> docx_file (generateDocx export_docx_env export_report) = ''Report_site_visit__2__north_.docx''
   \<and> title export_report = ''Site Visit #2 (North)''
   \<and> safeTitle (title export_report) = ''site_visit__2__north_''
   \<and> (5::nat) < length (title export_report)
   \<and> safeTitle (title export_report) ! 4 = CHR ''_''
   \<and> safeTitle (title export_report) ! 5 = CHR ''v''"
proof -
  have t: "title export_report = ''Site Visit #2 (North)''"
    by (simp add: export_report_def)
  have s: "safeTitle ''Site Visit #2 (North)'' = ''site_visit__2__north_''"
    by (simp add: safeTitle_def alphanumeric_def toLowerCase_def)
  show ?thesis
    using export_file_names[of export_pdf_env export_report "\<lambda>k. None" export_docx_env]
    by (simp add: t s)
qed

section \<open>Properties of the document store gateway\<close>

text \<open>
  C10: \<^verbatim>\<open>getReports\<close> resolves for every database, never rejects. Unconfigured, or
  when the query throws, it resolves with the empty array, the value a database without
  reports gives. All it does besides is log the error: the console holds the error of
  a query that threw, and nothing otherwise (an unconfigured database has no error to
  log).
\<close>

theorem getReports_never_rejects:
  "(\<forall>db. \<exists>rs. fst (getReports db) = Resolves rs)
   \<and> fst (getReports None) = Resolves []
   \<and> fst (getReports (Some (Throws err))) = Resolves []
   \<and> fst (getReports (Some (Snapshot docs))) = Resolves docs
   \<and> fst (getReports None) = fst (getReports (Some (Snapshot [])))
   \<and> fst (getReports (Some (Throws err))) = fst (getReports (Some (Snapshot [])))
   \<and> (\<forall>db. snd (getReports db) = []
          \<or> (\<exists>e. db = Some (Throws e) \<and> snd (getReports db) = [''Error fetching reports: '' @ e]))
   \<and> snd (getReports (Some (Throws err))) = [''Error fetching reports: '' @ err]
   \<and> snd (getReports None) = []"
  by (auto simp add: getReports_def split: option.splits firestore.splits)

end
